theory Spec2Isabelle
  imports Main
begin

section \<open>The Basecamp data source (basecamp.py)\<close>

text \<open>
  The connector reads projects and to-dos from a remote service over HTTP and turns every
  to-do, with its comments, into one document that is put on the index queue. The model
  below follows \<^verbatim>\<open>basecamp.py\<close> line by line: decoded JSON values are a datatype, every
  exception is a value of \<open>error\<close>, the HTTP session is a function of the requests made so
  far, and the queues are lists that the functions return updated.
\<close>

subsection \<open>Python values and exceptions\<close>

text \<open>
  What \<^verbatim>\<open>response.json()\<close> returns: \<^verbatim>\<open>None\<close>, booleans, integers, strings, lists and
  dictionaries. The numbers of the service (identifiers, page numbers) are integers; JSON
  numbers with a fraction are left out of the model. A dictionary is an association list,
  read with \<open>map_of\<close>.
\<close>

datatype json =
    JNull
  | JBool bool
  | JInt int
  | JStr string
  | JArr "json list"
  | JObj "(string \<times> json) list"

datatype error =
    KeyError string
  | TypeError
  | ValueError
  | HTTPError nat
  | ConnectionError
  | JSONDecodeError
  | InvalidDataSourceConfig

definition ebind :: "error + 'a \<Rightarrow> ('a \<Rightarrow> error + 'b) \<Rightarrow> error + 'b" where
  "ebind m f = (case m of Inl e \<Rightarrow> Inl e | Inr x \<Rightarrow> f x)"

text \<open>\<^verbatim>\<open>v[k]\<close> with a string key: only a dictionary can be read that way.\<close>

fun getitem :: "json \<Rightarrow> string \<Rightarrow> error + json" where
  "getitem (JObj kvs) k = (case map_of kvs k of None \<Rightarrow> Inl (KeyError k) | Some v \<Rightarrow> Inr v)"
| "getitem v k = Inl TypeError"

text \<open>Truth value of a Python object, as \<^verbatim>\<open>if v\<close> and \<^verbatim>\<open>not v\<close> read it.\<close>

fun truthy :: "json \<Rightarrow> bool" where
  "truthy JNull = False"
| "truthy (JBool b) = b"
| "truthy (JInt i) = (i \<noteq> 0)"
| "truthy (JStr s) = (s \<noteq> [])"
| "truthy (JArr xs) = (xs \<noteq> [])"
| "truthy (JObj kvs) = (kvs \<noteq> [])"

text \<open>
  \<^verbatim>\<open>for x in v\<close>: a list gives its elements, a dictionary its keys, a string its
  characters; anything else is not iterable.
\<close>

fun iterate :: "json \<Rightarrow> error + json list" where
  "iterate (JArr xs) = Inr xs"
| "iterate (JObj kvs) = Inr (map (\<lambda>kv. JStr (fst kv)) kvs)"
| "iterate (JStr s) = Inr (map (\<lambda>c. JStr [c]) s)"
| "iterate v = Inl TypeError"

subsection \<open>Library functions the module calls\<close>

text \<open>
  Three functions come from outside the module and are parameters of the model:
  \<^item> \<open>html_to_text\<close> of \<^verbatim>\<open>parsers.html\<close>, which receives whatever value the record holds
    and returns text or raises;
  \<^item> \<open>strptime\<close> of \<^verbatim>\<open>datetime\<close>, which receives the value and the format string and
    returns an instant or raises;
  \<^item> \<open>repr\<close>, the text Python prints for a list or a dictionary inside an f-string.
\<close>

record 'ts library =
  html_to_text :: "json \<Rightarrow> error + string"
  strptime :: "json \<Rightarrow> string \<Rightarrow> error + 'ts"
  repr :: "json \<Rightarrow> string"

fun str_of_nat :: "nat \<Rightarrow> string" where
  "str_of_nat n =
     (if n < 10 then [char_of (48 + n)]
      else str_of_nat (n div 10) @ [char_of (48 + n mod 10)])"

declare str_of_nat.simps [simp del]

definition str_of_int :: "int \<Rightarrow> string" where
  "str_of_int i = (if i < 0 then CHR ''-'' # str_of_nat (nat (- i)) else str_of_nat (nat i))"

text \<open>\<^verbatim>\<open>f"{v}"\<close>: the text of a value inside an f-string.\<close>

fun py_str :: "'ts library \<Rightarrow> json \<Rightarrow> string" where
  "py_str lib JNull = ''None''"
| "py_str lib (JBool b) = (if b then ''True'' else ''False'')"
| "py_str lib (JInt i) = str_of_int i"
| "py_str lib (JStr s) = s"
| "py_str lib v = repr lib v"

subsection \<open>The HTTP session\<close>

text \<open>
  A request is a GET of a URL with query parameters, sent by a session that carries the
  credentials and the User-Agent header. The remote service answers as a function of the
  requests made so far and of the request itself: either no response arrives (the
  \<^verbatim>\<open>requests\<close> library raises \<^verbatim>\<open>ConnectionError\<close>), or a response with a status code
  and a body that may or may not decode as JSON. Every call of \<open>session_get\<close> appends the
  request to the log.
\<close>

record session =
  auth :: "json \<times> json"
  user_agent :: string

record response =
  status_code :: nat
  body :: "json option"

datatype request = Get session json "(string \<times> int) list"

datatype outcome = ConnectionFailed | Response response

type_synonym remote = "request list \<Rightarrow> request \<Rightarrow> outcome"

definition session_get :: "remote \<Rightarrow> request list \<Rightarrow> request \<Rightarrow> (error + response) \<times> request list" where
  "session_get remote log req =
     ((case remote log req of ConnectionFailed \<Rightarrow> Inl ConnectionError | Response r \<Rightarrow> Inr r),
      log @ [req])"

definition raise_for_status :: "response \<Rightarrow> error + unit" where
  "raise_for_status r =
     (if 400 \<le> status_code r \<and> status_code r < 600 then Inl (HTTPError (status_code r))
      else Inr ())"

definition response_json :: "response \<Rightarrow> error + json" where
  "response_json r = (case body r of None \<Rightarrow> Inl JSONDecodeError | Some v \<Rightarrow> Inr v)"

text \<open>The three lines \<^verbatim>\<open>get\<close>, \<^verbatim>\<open>raise_for_status\<close>, \<^verbatim>\<open>json\<close> that every fetch repeats.\<close>

definition fetch_json :: "remote \<Rightarrow> request list \<Rightarrow> request \<Rightarrow> (error + json) \<times> request list" where
  "fetch_json remote log req =
     (case session_get remote log req of
        (got, log') \<Rightarrow>
          (ebind got (\<lambda>response. ebind (raise_for_status response) (\<lambda>_. response_json response)),
           log'))"

subsection \<open>BasecampClient\<close>

record client =
  base_url :: string
  client_session :: session

definition BasecampClient :: "'ts library \<Rightarrow> json \<Rightarrow> json \<Rightarrow> json \<Rightarrow> client" where
  "BasecampClient lib url username password =
     \<lparr>base_url = py_str lib url @ ''/api/v1'',
      client_session =
        \<lparr>auth = (username, password),
         user_agent = ''GerevAI ('' @ py_str lib username @ '')''\<rparr>\<rparr>"

definition projects_request :: "client \<Rightarrow> request" where
  "projects_request c = Get (client_session c) (JStr (base_url c @ ''/projects.json'')) []"

definition get_projects :: "remote \<Rightarrow> client \<Rightarrow> request list \<Rightarrow> (error + json) \<times> request list" where
  "get_projects remote c log = fetch_json remote log (projects_request c)"

text \<open>The inner loop of \<open>get_todos\<close>: one detail request for every summary of a page.\<close>

definition detail_request :: "client \<Rightarrow> json \<Rightarrow> request" where
  "detail_request c u = Get (client_session c) u []"

fun get_todos_details ::
  "remote \<Rightarrow> client \<Rightarrow> json list \<Rightarrow> json list \<Rightarrow> request list \<Rightarrow> (error + json list) \<times> request list" where
  "get_todos_details remote c [] todos log = (Inr todos, log)"
| "get_todos_details remote c (basic_todo # rest) todos log =
     (case getitem basic_todo ''url'' of
        Inl e \<Rightarrow> (Inl e, log)
      | Inr u \<Rightarrow>
          (case fetch_json remote log (detail_request c u) of
             (Inl e, log') \<Rightarrow> (Inl e, log')
           | (Inr todo, log') \<Rightarrow> get_todos_details remote c rest (todos @ [todo]) log'))"

definition page_request :: "client \<Rightarrow> string \<Rightarrow> int \<Rightarrow> request" where
  "page_request c url page = Get (client_session c) (JStr url) [(''page'', page)]"

text \<open>
  The \<^verbatim>\<open>while True\<close> loop. It ends when a page is falsy or when a request raises; on a
  service that never sends an empty page it runs forever, which is the value \<open>None\<close>.
\<close>

partial_function (option) get_todos_loop ::
  "remote \<Rightarrow> client \<Rightarrow> string \<Rightarrow> int \<Rightarrow> json list \<Rightarrow> request list
     \<Rightarrow> ((error + json list) \<times> request list) option" where
  "get_todos_loop remote c url page todos log =
     (case fetch_json remote log (page_request c url page) of
        (Inl e, log1) \<Rightarrow> Some (Inl e, log1)
      | (Inr basic_todos, log1) \<Rightarrow>
          (case iterate basic_todos of
             Inl e \<Rightarrow> Some (Inl e, log1)
           | Inr summaries \<Rightarrow>
               (case get_todos_details remote c summaries todos log1 of
                  (Inl e, log2) \<Rightarrow> Some (Inl e, log2)
                | (Inr todos', log2) \<Rightarrow>
                    if \<not> truthy basic_todos then Some (Inr todos', log2)
                    else get_todos_loop remote c url (page + 1) todos' log2)))"

declare get_todos_loop.simps [code]

definition todos_url :: "'ts library \<Rightarrow> client \<Rightarrow> json \<Rightarrow> string" where
  "todos_url lib c pid = base_url c @ ''/projects/'' @ py_str lib pid @ ''/todos.json''"

definition get_todos ::
  "'ts library \<Rightarrow> remote \<Rightarrow> client \<Rightarrow> json \<Rightarrow> request list
     \<Rightarrow> ((error + json list) \<times> request list) option" where
  "get_todos lib remote c project log =
     (case getitem project ''id'' of
        Inl e \<Rightarrow> Some (Inl e, log)
      | Inr pid \<Rightarrow> get_todos_loop remote c (todos_url lib c pid) 1 [] log)"

subsection \<open>Documents and queues\<close>

datatype document_type = DOCUMENT | COMMENT

text \<open>
  Modelled from the spec: \<^verbatim>\<open>BasicDocument\<close> is declared in
  \<^verbatim>\<open>data_source.api.basic_document\<close>, outside the module. Its fields hold what the
  module passes: record values as they are, the converted text or \<^verbatim>\<open>None\<close> for the
  content, the parsed instant, and the child documents. A document built without the
  \<^verbatim>\<open>children\<close> argument (every COMMENT document) has the empty sequence of children,
  as the spec's data model says.
\<close>

datatype 'ts basic_document = BasicDocument
  (doc_id: json)
  (data_source_id: int)
  (doc_type: document_type)
  (title: json)
  (content: "string option")
  (author: json)
  (author_image_url: json)
  (location: json)
  (url: json)
  (timestamp: 'ts)
  (children: "'ts basic_document list")

text \<open>
  The state the data source works on: the log of the HTTP requests made, the units of work
  handed to \<^verbatim>\<open>add_task_to_queue\<close>, and the documents put on the index queue.
\<close>

record 'ts state =
  requests_log :: "request list"
  task_queue :: "json list"
  index_queue :: "'ts basic_document list"

text \<open>\<^verbatim>\<open>IndexQueue.get_instance().put_single(doc=doc)\<close>: one document joins the queue.\<close>

definition put_single :: "'ts basic_document list \<Rightarrow> 'ts basic_document \<Rightarrow> 'ts basic_document list" where
  "put_single queue doc = queue @ [doc]"

text \<open>
  Modelled from the spec: \<^verbatim>\<open>add_task_to_queue\<close> of \<^verbatim>\<open>BaseDataSource\<close> is not part of
  the module; it schedules one processing unit, here the project that
  \<open>feed_project_issues\<close> will be run on.
\<close>

definition add_task_to_queue :: "'ts state \<Rightarrow> json \<Rightarrow> 'ts state" where
  "add_task_to_queue st project = st\<lparr>task_queue := task_queue st @ [project]\<rparr>"

subsection \<open>BasecampDataSource\<close>

record data_source =
  self_data_source_id :: int
  self_client :: client

definition client_of_config :: "'ts library \<Rightarrow> json \<Rightarrow> error + client" where
  "client_of_config lib config =
     ebind (getitem config ''url'') (\<lambda>url.
     ebind (getitem config ''username'') (\<lambda>username.
     ebind (getitem config ''password'') (\<lambda>password.
     Inr (BasecampClient lib url username password))))"

definition BasecampDataSource :: "'ts library \<Rightarrow> int \<Rightarrow> json \<Rightarrow> error + data_source" where
  "BasecampDataSource lib dsid raw_config =
     ebind (client_of_config lib raw_config) (\<lambda>c.
     Inr \<lparr>self_data_source_id = dsid, self_client = c\<rparr>)"

text \<open>\<^verbatim>\<open>except requests.HTTPError as e: raise InvalidDataSourceConfig from e\<close>\<close>

fun except_HTTPError :: "error \<Rightarrow> error" where
  "except_HTTPError (HTTPError code) = InvalidDataSourceConfig"
| "except_HTTPError e = e"

definition validate_config ::
  "'ts library \<Rightarrow> remote \<Rightarrow> json \<Rightarrow> request list \<Rightarrow> (error + unit) \<times> request list" where
  "validate_config lib remote config log =
     (case client_of_config lib config of
        Inl e \<Rightarrow> (Inl (except_HTTPError e), log)
      | Inr c \<Rightarrow>
          (case get_projects remote c log of
             (Inl e, log') \<Rightarrow> (Inl (except_HTTPError e), log')
           | (Inr projects, log') \<Rightarrow> (Inr (), log')))"

definition feed_new_documents ::
  "remote \<Rightarrow> data_source \<Rightarrow> 'ts state \<Rightarrow> (error + unit) \<times> 'ts state" where
  "feed_new_documents remote self st =
     (case get_projects remote (self_client self) (requests_log st) of
        (Inl e, log) \<Rightarrow> (Inl e, st\<lparr>requests_log := log\<rparr>)
      | (Inr projects, log) \<Rightarrow>
          (case iterate projects of
             Inl e \<Rightarrow> (Inl e, st\<lparr>requests_log := log\<rparr>)
           | Inr ps \<Rightarrow> (Inr (), foldl add_task_to_queue (st\<lparr>requests_log := log\<rparr>) ps)))"

definition timestamp_format :: string where
  "timestamp_format = ''%Y-%m-%dT%H:%M:%S.%f%z''"

text \<open>
  Lines 109 to 125: the COMMENT document of one comment. The keyword arguments are
  evaluated in the order they are written, so the first lookup that raises decides the
  exception.
\<close>

definition comment_document ::
  "'ts library \<Rightarrow> data_source \<Rightarrow> json \<Rightarrow> json \<Rightarrow> json \<Rightarrow> error + 'ts basic_document" where
  "comment_document lib self project todo comment =
     ebind (getitem comment ''id'') (\<lambda>cid.
     ebind (ebind (getitem comment ''creator'') (\<lambda>creator. getitem creator ''name'')) (\<lambda>name.
     ebind (ebind (getitem comment ''content'') (\<lambda>test.
              if truthy test
              then ebind (ebind (getitem comment ''content'') (html_to_text lib)) (\<lambda>plain. Inr (Some plain))
              else Inr None)) (\<lambda>plain.
     ebind (ebind (getitem comment ''creator'') (\<lambda>creator. getitem creator ''name'')) (\<lambda>author_name.
     ebind (ebind (getitem comment ''creator'') (\<lambda>creator. getitem creator ''avatar_url'')) (\<lambda>avatar.
     ebind (getitem project ''name'') (\<lambda>project_name.
     ebind (getitem todo ''app_url'') (\<lambda>app_url.
     ebind (getitem comment ''id'') (\<lambda>fragment.
     ebind (ebind (getitem comment ''updated_at'') (\<lambda>u. strptime lib u timestamp_format)) (\<lambda>ts.
     Inr (BasicDocument cid (self_data_source_id self) COMMENT name plain author_name avatar
            project_name (JStr (py_str lib app_url @ ''#comment_'' @ py_str lib fragment)) ts
            []))))))))))"

text \<open>Lines 106 to 126: the children of one to-do, in the order of its comments.\<close>

fun comment_documents ::
  "'ts library \<Rightarrow> data_source \<Rightarrow> json \<Rightarrow> json \<Rightarrow> json list \<Rightarrow> 'ts basic_document list
     \<Rightarrow> error + 'ts basic_document list" where
  "comment_documents lib self project todo [] docs = Inr docs"
| "comment_documents lib self project todo (comment # rest) docs =
     (case comment_document lib self project todo comment of
        Inl e \<Rightarrow> Inl e
      | Inr doc \<Rightarrow> comment_documents lib self project todo rest (docs @ [doc]))"

text \<open>Lines 106 to 142: the DOCUMENT document of one to-do, children first.\<close>

definition todo_document ::
  "'ts library \<Rightarrow> data_source \<Rightarrow> json \<Rightarrow> json \<Rightarrow> error + 'ts basic_document" where
  "todo_document lib self project todo =
     ebind (ebind (getitem todo ''comments'') iterate) (\<lambda>comments.
     ebind (comment_documents lib self project todo comments []) (\<lambda>docs.
     ebind (getitem todo ''id'') (\<lambda>tid.
     ebind (ebind (getitem todo ''creator'') (\<lambda>creator. getitem creator ''name'')) (\<lambda>name.
     ebind (ebind (getitem todo ''content'') (html_to_text lib)) (\<lambda>plain.
     ebind (ebind (getitem todo ''creator'') (\<lambda>creator. getitem creator ''name'')) (\<lambda>author_name.
     ebind (ebind (getitem todo ''creator'') (\<lambda>creator. getitem creator ''avatar_url'')) (\<lambda>avatar.
     ebind (getitem project ''name'') (\<lambda>project_name.
     ebind (getitem todo ''app_url'') (\<lambda>app_url.
     ebind (ebind (getitem todo ''updated_at'') (\<lambda>u. strptime lib u timestamp_format)) (\<lambda>ts.
     Inr (BasicDocument tid (self_data_source_id self) DOCUMENT name (Some plain) author_name
            avatar project_name app_url ts docs)))))))))))"

text \<open>
  Lines 105 to 143: the loop over the to-dos of a project. Nothing catches an exception
  here, so the first to-do that raises ends the loop; the documents put before it stay on
  the queue.
\<close>

fun feed_todos ::
  "'ts library \<Rightarrow> data_source \<Rightarrow> json \<Rightarrow> json list \<Rightarrow> 'ts basic_document list
     \<Rightarrow> (error + unit) \<times> 'ts basic_document list" where
  "feed_todos lib self project [] queue = (Inr (), queue)"
| "feed_todos lib self project (todo # rest) queue =
     (case todo_document lib self project todo of
        Inl e \<Rightarrow> (Inl e, queue)
      | Inr doc \<Rightarrow> feed_todos lib self project rest (put_single queue doc))"

text \<open>
  \<^verbatim>\<open>_feed_project_issues\<close>. The log line reads \<^verbatim>\<open>project['name']\<close> and
  \<^verbatim>\<open>project['id']\<close> before anything is fetched.
\<close>

definition feed_project_issues ::
  "'ts library \<Rightarrow> remote \<Rightarrow> data_source \<Rightarrow> json \<Rightarrow> 'ts state
     \<Rightarrow> ((error + unit) \<times> 'ts state) option" where
  "feed_project_issues lib remote self project st =
     (case ebind (getitem project ''name'') (\<lambda>_. getitem project ''id'') of
        Inl e \<Rightarrow> Some (Inl e, st)
      | Inr _ \<Rightarrow>
          (case get_todos lib remote (self_client self) project (requests_log st) of
             None \<Rightarrow> None
           | Some (Inl e, log) \<Rightarrow> Some (Inl e, st\<lparr>requests_log := log\<rparr>)
           | Some (Inr todos, log) \<Rightarrow>
               (case feed_todos lib self project todos (index_queue st) of
                  (r, queue) \<Rightarrow> Some (r, st\<lparr>requests_log := log, index_queue := queue\<rparr>))))"

section \<open>A library and a remote service to run the module on\<close>

text \<open>
  The properties below hold for every library and every remote service. To evaluate the
  module on concrete inputs, this section fixes one of each.
\<close>

text \<open>
  Modelled from the spec: \<open>html_to_text\<close> of \<^verbatim>\<open>parsers.html\<close> is not part of the
  module; the spec describes it as a pure function from an HTML string to a text string.
  The stand-in removes the tags and raises \<^verbatim>\<open>TypeError\<close> on a value that is not a
  string.
\<close>

fun strip_tags :: "bool \<Rightarrow> string \<Rightarrow> string" where
  "strip_tags in_tag [] = []"
| "strip_tags in_tag (c # cs) =
     (if c = CHR ''<'' then strip_tags True cs
      else if in_tag then strip_tags (c \<noteq> CHR ''>'') cs
      else c # strip_tags False cs)"

definition html_to_text_model :: "json \<Rightarrow> error + string" where
  "html_to_text_model v = (case v of JStr s \<Rightarrow> Inr (strip_tags False s) | _ \<Rightarrow> Inl TypeError)"

text \<open>
  Modelled from the spec: \<open>strptime\<close> belongs to Python's \<^verbatim>\<open>datetime\<close>; the spec gives
  the pattern of an accepted text as \<^verbatim>\<open>YYYY-MM-DDTHH:MM:SS.ffffff+HH:MM\<close> (the sign of the
  offset \<^verbatim>\<open>+\<close> or \<^verbatim>\<open>-\<close>). The stand-in accepts exactly the texts of that shape whose
  fields are in range, raises \<^verbatim>\<open>ValueError\<close> on any other text and \<^verbatim>\<open>TypeError\<close> on a
  value that is not a string.
\<close>

record instant =
  year :: nat
  month :: nat
  day :: nat
  hour :: nat
  minute :: nat
  second :: nat
  microsecond :: nat
  utcoffset_minutes :: int

definition digit_val :: "char \<Rightarrow> nat option" where
  "digit_val c =
     (if (48::nat) \<le> of_char c \<and> of_char c \<le> (57::nat) then Some (of_char c - 48) else None)"

fun read_number :: "nat \<Rightarrow> nat \<Rightarrow> string \<Rightarrow> (nat \<times> string) option" where
  "read_number 0 acc s = Some (acc, s)"
| "read_number (Suc n) acc [] = None"
| "read_number (Suc n) acc (c # s) =
     (case digit_val c of None \<Rightarrow> None | Some d \<Rightarrow> read_number n (10 * acc + d) s)"

fun read_char :: "char list \<Rightarrow> string \<Rightarrow> (char \<times> string) option" where
  "read_char allowed [] = None"
| "read_char allowed (c # s) = (if c \<in> set allowed then Some (c, s) else None)"

definition parse_instant :: "string \<Rightarrow> instant option" where
  "parse_instant s0 =
     Option.bind (read_number 4 0 s0) (\<lambda>(y, s1).
     Option.bind (read_char ''-'' s1) (\<lambda>(_, s2).
     Option.bind (read_number 2 0 s2) (\<lambda>(mo, s3).
     Option.bind (read_char ''-'' s3) (\<lambda>(_, s4).
     Option.bind (read_number 2 0 s4) (\<lambda>(d, s5).
     Option.bind (read_char ''T'' s5) (\<lambda>(_, s6).
     Option.bind (read_number 2 0 s6) (\<lambda>(h, s7).
     Option.bind (read_char '':'' s7) (\<lambda>(_, s8).
     Option.bind (read_number 2 0 s8) (\<lambda>(mi, s9).
     Option.bind (read_char '':'' s9) (\<lambda>(_, s10).
     Option.bind (read_number 2 0 s10) (\<lambda>(sec, s11).
     Option.bind (read_char ''.'' s11) (\<lambda>(_, s12).
     Option.bind (read_number 6 0 s12) (\<lambda>(us, s13).
     Option.bind (read_char ''+-'' s13) (\<lambda>(sign, s14).
     Option.bind (read_number 2 0 s14) (\<lambda>(oh, s15).
     Option.bind (read_char '':'' s15) (\<lambda>(_, s16).
     Option.bind (read_number 2 0 s16) (\<lambda>(om, s17).
     if s17 = [] \<and> 1 \<le> mo \<and> mo \<le> 12 \<and> 1 \<le> d \<and> d \<le> 31 \<and> h < 24 \<and> mi < 60
        \<and> sec < 62 \<and> om < 60
     then Some \<lparr>year = y, month = mo, day = d, hour = h, minute = mi, second = sec,
                microsecond = us,
                utcoffset_minutes =
                  (if sign = CHR ''-'' then - int (60 * oh + om) else int (60 * oh + om))\<rparr>
     else None)))))))))))))))))"

definition strptime_model :: "json \<Rightarrow> string \<Rightarrow> error + instant" where
  "strptime_model v fmt =
     (case v of
        JStr s \<Rightarrow>
          (if fmt = timestamp_format
           then (case parse_instant s of None \<Rightarrow> Inl ValueError | Some t \<Rightarrow> Inr t)
           else Inl ValueError)
      | _ \<Rightarrow> Inl TypeError)"

text \<open>
  No evaluation below formats a list or a dictionary inside an f-string, so the stand-in
  for \<open>repr\<close> is one fixed text.
\<close>

definition repr_model :: "json \<Rightarrow> string" where
  "repr_model v = ''[...]''"

definition model_library :: "instant library" where
  "model_library =
     \<lparr>html_to_text = html_to_text_model, strptime = strptime_model, repr = repr_model\<rparr>"

text \<open>
  A remote service that answers every request the same way whenever it is asked: a request
  with a \<^verbatim>\<open>page\<close> parameter gets that page of the listing (the empty list past the last
  page), any other request gets the document stored under its URL, or status 404.
\<close>

definition ok :: "json \<Rightarrow> outcome" where
  "ok v = Response \<lparr>status_code = 200, body = Some v\<rparr>"

definition status :: "nat \<Rightarrow> outcome" where
  "status code = Response \<lparr>status_code = code, body = None\<rparr>"

fun paginated_source :: "json list list \<Rightarrow> (json \<times> outcome) list \<Rightarrow> remote" where
  "paginated_source pages documents log (Get s u params) =
     (case map_of params ''page'' of
        Some p \<Rightarrow>
          ok (JArr (if 1 \<le> p \<and> nat p \<le> length pages then pages ! (nat p - 1) else []))
      | None \<Rightarrow> (case map_of documents u of Some out \<Rightarrow> out | None \<Rightarrow> status 404))"

section \<open>Request sequences and inputs used in the properties\<close>

text \<open>
  The sequence of requests that reading the pages \<open>pages\<close> of a listing makes, from page
  number \<open>p\<close> on: the page request, then one detail request for every summary of the page
  in the order of the page, then the next page. \<open>loc\<close> gives the detail locator of a
  summary.
\<close>

fun pages_trace :: "client \<Rightarrow> string \<Rightarrow> (json \<Rightarrow> json) \<Rightarrow> int \<Rightarrow> json list list \<Rightarrow> request list" where
  "pages_trace c listing loc p [] = []"
| "pages_trace c listing loc p (page # pages) =
     page_request c listing p # map (\<lambda>s. detail_request c (loc s)) page
       @ pages_trace c listing loc (p + 1) pages"

fun page_requested :: "request \<Rightarrow> bool" where
  "page_requested (Get s u params) = (map_of params ''page'' \<noteq> None)"

text \<open>Concrete inputs: a client, a project, and a listing of three summaries on two
  pages, each summary with a locator and a detail record of its own.\<close>

definition scenario_client :: client where
  "scenario_client = BasecampClient model_library (JStr ''https://x'') (JStr ''user'') (JStr ''secret'')"

definition acme_project :: json where
  "acme_project = JObj [(''id'', JInt 1), (''name'', JStr ''Acme'')]"

definition summary :: "string \<Rightarrow> json" where
  "summary name = JObj [(''url'', JStr (''https://x/todos/'' @ name))]"

definition locator :: "json \<Rightarrow> json" where
  "locator s = (case getitem s ''url'' of Inr u \<Rightarrow> u | Inl e \<Rightarrow> JNull)"

definition detail_of :: "json \<Rightarrow> json" where
  "detail_of s = JObj [(''summary'', s)]"

definition abc_source :: remote where
  "abc_source =
     paginated_source [[summary ''a'', summary ''b''], [summary ''c'']]
       [(locator (summary ''a''), ok (detail_of (summary ''a''))),
        (locator (summary ''b''), ok (detail_of (summary ''b''))),
        (locator (summary ''c''), ok (detail_of (summary ''c'')))]"

text \<open>A listing whose fourth detail request is answered with status 500.\<close>

definition failing_source :: remote where
  "failing_source =
     paginated_source [[summary ''a'', summary ''b''], [summary ''c'', summary ''d'']]
       [(locator (summary ''a''), ok (detail_of (summary ''a''))),
        (locator (summary ''b''), ok (detail_of (summary ''b''))),
        (locator (summary ''c''), ok (detail_of (summary ''c''))),
        (locator (summary ''d''), status 500)]"

text \<open>
  Records to build documents from. \<open>task_item\<close> and \<open>comment_item\<close> give a to-do and a
  comment with a chosen identifier, content and \<^verbatim>\<open>updated_at\<close>; \<open>scenario_task_item\<close> is
  the to-do of the spec's end-to-end scenario, with room for more fields in the two
  \<^verbatim>\<open>creator\<close> records. \<open>items_source\<close> is a remote service that lists the given to-dos
  on one page and serves each under its own locator.
\<close>

definition scenario_self :: data_source where
  "scenario_self = \<lparr>self_data_source_id = 7, self_client = scenario_client\<rparr>"

definition empty_state :: "instant state" where
  "empty_state = \<lparr>requests_log = [], task_queue = [], index_queue = []\<rparr>"

definition creator_record :: "string \<Rightarrow> (string \<times> json) list \<Rightarrow> json" where
  "creator_record name extra = JObj ((''name'', JStr name) # extra)"

definition comment_item :: "int \<Rightarrow> json \<Rightarrow> string \<Rightarrow> json" where
  "comment_item n raw updated =
     JObj [(''id'', JInt n),
           (''creator'', creator_record ''Al'' [(''avatar_url'', JStr ''https://x/al.png'')]),
           (''content'', raw),
           (''updated_at'', JStr updated)]"

definition task_item :: "int \<Rightarrow> json \<Rightarrow> string \<Rightarrow> json list \<Rightarrow> json" where
  "task_item n raw updated comments =
     JObj [(''id'', JInt n),
           (''creator'', creator_record ''Bo'' [(''avatar_url'', JStr ''https://x/bo.png'')]),
           (''content'', raw),
           (''app_url'', JStr (''https://x/'' @ str_of_int n)),
           (''updated_at'', JStr updated),
           (''comments'', JArr comments)]"

definition scenario_task_item :: "(string \<times> json) list \<Rightarrow> (string \<times> json) list \<Rightarrow> json" where
  "scenario_task_item extra_bo extra_al =
     JObj [(''id'', JInt 10),
           (''creator'', creator_record ''Bo'' extra_bo),
           (''content'', JStr ''<p>Hi</p>''),
           (''app_url'', JStr ''https://x/10''),
           (''updated_at'', JStr ''2023-01-02T03:04:05.000000+00:00''),
           (''comments'',
            JArr [JObj [(''id'', JInt 99),
                        (''creator'', creator_record ''Al'' extra_al),
                        (''content'', JStr ''<b>ok</b>''),
                        (''updated_at'', JStr ''2023-01-02T03:05:00.000000+00:00'')]])]"

definition summary_of_item :: "json \<Rightarrow> json" where
  "summary_of_item item =
     summary (case getitem item ''id'' of Inr n \<Rightarrow> py_str model_library n | Inl e \<Rightarrow> ''none'')"

definition items_source :: "json list \<Rightarrow> remote" where
  "items_source items =
     paginated_source [map summary_of_item items]
       (map (\<lambda>item. (locator (summary_of_item item), ok item)) items)"

definition result_and_queue ::
  "((error + unit) \<times> 'ts state) option \<Rightarrow> ((error + unit) \<times> 'ts basic_document list) option" where
  "result_and_queue run = map_option (\<lambda>(r, st). (r, index_queue st)) run"

text \<open>Two values of \<^verbatim>\<open>updated_at\<close>: one of the expected shape, one without the
  \<^verbatim>\<open>T\<close>, the fraction and the offset.\<close>

definition good_stamp :: string where
  "good_stamp = ''2023-01-02T03:04:05.000000+00:00''"

definition bad_stamp :: string where
  "bad_stamp = ''2023-01-02 03:04:05''"

text \<open>A to-do with three comments, the second with empty content and the third with
  none, and the document the module builds from it with the library above.\<close>

definition example_item :: json where
  "example_item =
     task_item 10 (JStr ''<p>Hi</p>'') good_stamp
       [comment_item 5 (JStr ''<b>ok</b>'') good_stamp, comment_item 6 (JStr []) good_stamp,
        comment_item 7 JNull good_stamp]"

definition example_instant :: instant where
  "example_instant =
     \<lparr>year = 2023, month = 1, day = 2, hour = 3, minute = 4, second = 5, microsecond = 0,
      utcoffset_minutes = 0\<rparr>"

definition example_comment_document :: "int \<Rightarrow> string option \<Rightarrow> instant basic_document" where
  "example_comment_document n plain =
     BasicDocument (JInt n) 7 COMMENT (JStr ''Al'') plain (JStr ''Al'') (JStr ''https://x/al.png'')
       (JStr ''Acme'') (JStr (''https://x/10#comment_'' @ str_of_int n)) example_instant []"

definition example_document :: "instant basic_document" where
  "example_document =
     BasicDocument (JInt 10) 7 DOCUMENT (JStr ''Bo'') (Some ''Hi'') (JStr ''Bo'')
       (JStr ''https://x/bo.png'') (JStr ''Acme'') (JStr ''https://x/10'') example_instant
       [example_comment_document 5 (Some ''ok''), example_comment_document 6 None,
        example_comment_document 7 None]"



text \<open>A configuration with the three keys, a remote service that cannot be reached, and
  one that answers every request with status 401.\<close>

definition scenario_config :: json where
  "scenario_config =
     JObj [(''url'', JStr ''https://x''), (''username'', JStr ''user''), (''password'', JStr ''secret'')]"

definition unreachable :: remote where
  "unreachable log req = ConnectionFailed"

definition unauthorized :: remote where
  "unauthorized log req = status 401"

section \<open>Properties\<close>

subsection \<open>Results as values\<close>

lemma ebind_Inl: "ebind (Inl e) f = Inl e"
  by (simp add: ebind_def)

lemma ebind_Inr: "ebind (Inr x) f = f x"
  by (simp add: ebind_def)

lemma ebind_eq_Inr: "ebind m f = Inr y \<longleftrightarrow> (\<exists>x. m = Inr x \<and> f x = Inr y)"
  by (cases m) (simp_all add: ebind_def)

lemma fetch_json_log: "snd (fetch_json remote log req) = log @ [req]"
  by (simp add: fetch_json_def session_get_def)

lemma fetch_json_ok: "remote log req = ok v \<Longrightarrow> fetch_json remote log req = (Inr v, log @ [req])"
  by (simp add: fetch_json_def session_get_def ok_def raise_for_status_def response_json_def ebind_def)

lemma fetch_json_http_error:
  "remote log req = Response r \<Longrightarrow> 400 \<le> status_code r \<Longrightarrow> status_code r < 600
     \<Longrightarrow> fetch_json remote log req = (Inl (HTTPError (status_code r)), log @ [req])"
  by (simp add: fetch_json_def session_get_def raise_for_status_def ebind_def)

lemma fetch_json_cases:
  "fetch_json remote log req =
     ((case remote log req of
         ConnectionFailed \<Rightarrow> Inl ConnectionError
       | Response r \<Rightarrow>
           if 400 \<le> status_code r \<and> status_code r < 600 then Inl (HTTPError (status_code r))
           else (case body r of None \<Rightarrow> Inl JSONDecodeError | Some v \<Rightarrow> Inr v)),
      log @ [req])"
  by (simp add: fetch_json_def session_get_def raise_for_status_def response_json_def ebind_def
           split: outcome.splits)

lemma get_todos_details_ok:
  assumes "\<forall>s\<in>set summaries. getitem s ''url'' = Inr (loc s)
             \<and> (\<forall>log. remote log (detail_request c (loc s)) = ok (detail s))"
  shows "get_todos_details remote c summaries todos log =
           (Inr (todos @ map detail summaries),
            log @ map (\<lambda>s. detail_request c (loc s)) summaries)"
  using assms
  by (induction summaries arbitrary: todos log) (simp_all add: fetch_json_ok)

lemma get_todos_details_http_error:
  assumes good: "\<forall>s\<in>set before. getitem s ''url'' = Inr (loc s)
             \<and> (\<forall>log. remote log (detail_request c (loc s)) = ok (detail s))"
      and u: "getitem bad ''url'' = Inr u"
      and r: "\<forall>log. remote log (detail_request c u) = Response r"
      and code: "400 \<le> status_code r" "status_code r < 600"
  shows "get_todos_details remote c (before @ bad # rest) todos log =
           (Inl (HTTPError (status_code r)),
            log @ map (\<lambda>s. detail_request c (loc s)) before @ [detail_request c u])"
  using good
proof (induction before arbitrary: todos log)
  case Nil
  show ?case using u r code by (simp add: fetch_json_http_error)
next
  case (Cons s before)
  then show ?case by (simp add: fetch_json_ok)
qed

subsection \<open>Pagination\<close>

lemma get_todos_loop_pages:
  assumes "\<forall>i<length pages. pages ! i \<noteq> []
             \<and> (\<forall>log. remote log (page_request c listing (p + int i)) = ok (JArr (pages ! i)))"
      and "\<forall>s\<in>set (concat pages). getitem s ''url'' = Inr (loc s)
             \<and> (\<forall>log. remote log (detail_request c (loc s)) = ok (detail s))"
  shows "get_todos_loop remote c listing p todos log =
           get_todos_loop remote c listing (p + int (length pages))
             (todos @ map detail (concat pages)) (log @ pages_trace c listing loc p pages)"
  using assms
proof (induction pages arbitrary: p todos log)
  case Nil
  then show ?case by simp
next
  case (Cons page pages)
  have page: "page \<noteq> []" "\<And>log. remote log (page_request c listing p) = ok (JArr page)"
    using Cons.prems(1) by force+
  have det: "\<forall>s\<in>set page. getitem s ''url'' = Inr (loc s)
             \<and> (\<forall>log. remote log (detail_request c (loc s)) = ok (detail s))"
    using Cons.prems(2) by simp
  have rest: "\<forall>i<length pages. pages ! i \<noteq> []
             \<and> (\<forall>log. remote log (page_request c listing (p + 1 + int i)) = ok (JArr (pages ! i)))"
  proof (intro allI impI)
    fix i assume "i < length pages"
    then have "Suc i < length (page # pages)" by simp
    from Cons.prems(1)[rule_format, OF this]
    show "pages ! i \<noteq> [] \<and> (\<forall>log. remote log (page_request c listing (p + 1 + int i)) = ok (JArr (pages ! i)))"
      by (simp add: add.assoc)
  qed
  have step: "get_todos_loop remote c listing p todos log =
      get_todos_loop remote c listing (p + 1) (todos @ map detail page)
        (log @ page_request c listing p # map (\<lambda>s. detail_request c (loc s)) page)"
    by (subst get_todos_loop.simps)
       (simp add: fetch_json_ok page get_todos_details_ok[OF det])
  have "get_todos_loop remote c listing (p + 1) (todos @ map detail page)
        (log @ page_request c listing p # map (\<lambda>s. detail_request c (loc s)) page) =
      get_todos_loop remote c listing (p + 1 + int (length pages))
        ((todos @ map detail page) @ map detail (concat pages))
        ((log @ page_request c listing p # map (\<lambda>s. detail_request c (loc s)) page)
           @ pages_trace c listing loc (p + 1) pages)"
    by (rule Cons.IH[OF rest]) (use Cons.prems(2) in simp)
  with step show ?case by (simp add: ac_simps)
qed

lemma page_requested_trace:
  "length (filter page_requested (pages_trace c listing loc p pages)) = length pages"
  by (induction pages arbitrary: p)
     (simp_all add: page_request_def detail_request_def filter_empty_conv)

text \<open>
  C2. When pages 1 to N of a project's listing are non-empty, page N + 1 is empty and every
  detail request is answered, \<open>get_todos\<close> returns: it requests page 1, then the detail of
  every summary of that page in page order, then the next page, and so on up to page
  N + 1, which is the last request; that is N + 1 page requests. The result is the detail
  records of all summaries in pagination order.
\<close>

theorem get_todos_pagination:
  assumes pid: "getitem project ''id'' = Inr pid"
      and pages: "\<forall>i<length pages. pages ! i \<noteq> []
             \<and> (\<forall>log. remote log (page_request c (todos_url lib c pid) (1 + int i))
                    = ok (JArr (pages ! i)))"
      and final: "\<forall>log. remote log (page_request c (todos_url lib c pid) (1 + int (length pages)))
                    = ok (JArr [])"
      and details: "\<forall>s\<in>set (concat pages). getitem s ''url'' = Inr (loc s)
             \<and> (\<forall>log. remote log (detail_request c (loc s)) = ok (detail s))"
  shows "get_todos lib remote c project log =
           Some (Inr (map detail (concat pages)),
                 log @ pages_trace c (todos_url lib c pid) loc 1 pages
                   @ [page_request c (todos_url lib c pid) (1 + int (length pages))])
         \<and> length (filter page_requested
                     (pages_trace c (todos_url lib c pid) loc 1 pages
                        @ [page_request c (todos_url lib c pid) (1 + int (length pages))]))
             = length pages + 1"
proof -
  let ?u = "todos_url lib c pid"
  have "get_todos lib remote c project log = get_todos_loop remote c ?u 1 [] log"
    by (simp add: get_todos_def pid)
  also have "\<dots> = get_todos_loop remote c ?u (1 + int (length pages))
                     ([] @ map detail (concat pages)) (log @ pages_trace c ?u loc 1 pages)"
    by (rule get_todos_loop_pages[OF pages details])
  also have "\<dots> = Some (Inr (map detail (concat pages)),
                 log @ pages_trace c ?u loc 1 pages
                   @ [page_request c ?u (1 + int (length pages))])"
    by (subst get_todos_loop.simps) (simp add: fetch_json_ok final)
  finally have run: "get_todos lib remote c project log =
      Some (Inr (map detail (concat pages)),
            log @ pages_trace c ?u loc 1 pages @ [page_request c ?u (1 + int (length pages))])" .
  have "page_requested (page_request c ?u (1 + int (length pages)))"
    by (simp add: page_request_def)
  then have "length (filter page_requested
                     (pages_trace c ?u loc 1 pages @ [page_request c ?u (1 + int (length pages))]))
             = length pages + 1"
    by (simp add: page_requested_trace)
  with run show ?thesis by simp
qed

theorem get_todos_pagination_witness:
  "get_todos model_library abc_source scenario_client acme_project [] =
     Some (Inr [detail_of (summary ''a''), detail_of (summary ''b''), detail_of (summary ''c'')],
           [page_request scenario_client ''https://x/api/v1/projects/1/todos.json'' 1,
            detail_request scenario_client (JStr ''https://x/todos/a''),
            detail_request scenario_client (JStr ''https://x/todos/b''),
            page_request scenario_client ''https://x/api/v1/projects/1/todos.json'' 2,
            detail_request scenario_client (JStr ''https://x/todos/c''),
            page_request scenario_client ''https://x/api/v1/projects/1/todos.json'' 3])"
proof -
  let ?pages = "[[summary ''a'', summary ''b''], [summary ''c'']]"
  have u: "todos_url model_library scenario_client (JInt 1) = ''https://x/api/v1/projects/1/todos.json''"
    by code_simp
  have pid: "getitem acme_project ''id'' = Inr (JInt 1)"
    by (simp add: acme_project_def)
  have pages: "\<forall>i<length ?pages. ?pages ! i \<noteq> []
             \<and> (\<forall>log. abc_source log (page_request scenario_client (todos_url model_library scenario_client (JInt 1)) (1 + int i))
                    = ok (JArr (?pages ! i)))"
    by (simp add: abc_source_def page_request_def less_Suc_eq numeral_2_eq_2)
  have final: "\<forall>log. abc_source log (page_request scenario_client (todos_url model_library scenario_client (JInt 1)) (1 + int (length ?pages)))
                    = ok (JArr [])"
    by (simp add: abc_source_def page_request_def)
  have details: "\<forall>s\<in>set (concat ?pages). getitem s ''url'' = Inr (locator s)
             \<and> (\<forall>log. abc_source log (detail_request scenario_client (locator s)) = ok (detail_of s))"
    by (simp add: abc_source_def detail_request_def locator_def summary_def)
  from get_todos_pagination[OF pid pages final details, of "[]"]
  show ?thesis
    by (simp add: u locator_def summary_def)
qed

text \<open>
  C8. After N complete pages, when the request of page N + 1 or the detail request of one
  of its summaries is answered with an HTTP error status, \<open>get_todos\<close> returns the
  \<^verbatim>\<open>HTTPError\<close> and no detail record: whatever was fetched so far is dropped. The failed
  request is the last entry of the request log, so it is sent once and nothing is sent
  after it.
\<close>

theorem get_todos_http_error_aborts:
  assumes pid: "getitem project ''id'' = Inr pid"
      and pages: "\<forall>i<length pages. pages ! i \<noteq> []
             \<and> (\<forall>log. remote log (page_request c (todos_url lib c pid) (1 + int i))
                    = ok (JArr (pages ! i)))"
      and details: "\<forall>s\<in>set (concat pages) \<union> set before. getitem s ''url'' = Inr (loc s)
             \<and> (\<forall>log. remote log (detail_request c (loc s)) = ok (detail s))"
      and failure:
        "failed = page_request c (todos_url lib c pid) (1 + int (length pages)) \<and> before = []
         \<or> (\<exists>bad rest.
               (\<forall>log. remote log (page_request c (todos_url lib c pid) (1 + int (length pages)))
                    = ok (JArr (before @ bad # rest)))
               \<and> getitem bad ''url'' = Inr (loc bad) \<and> failed = detail_request c (loc bad))"
      and answer: "\<forall>log. remote log failed = Response r"
      and code: "400 \<le> status_code r" "status_code r < 600"
  shows "get_todos lib remote c project log =
           Some (Inl (HTTPError (status_code r)),
                 log @ pages_trace c (todos_url lib c pid) loc 1 pages
                   @ (if failed = page_request c (todos_url lib c pid) (1 + int (length pages))
                      then [failed]
                      else page_request c (todos_url lib c pid) (1 + int (length pages))
                             # map (\<lambda>s. detail_request c (loc s)) before @ [failed]))"
proof -
  let ?u = "todos_url lib c pid"
  let ?next = "page_request c ?u (1 + int (length pages))"
  let ?log = "log @ pages_trace c ?u loc 1 pages"
  have details': "\<forall>s\<in>set (concat pages). getitem s ''url'' = Inr (loc s)
             \<and> (\<forall>log. remote log (detail_request c (loc s)) = ok (detail s))"
    using details by simp
  have start: "get_todos lib remote c project log =
      get_todos_loop remote c ?u (1 + int (length pages)) ([] @ map detail (concat pages)) ?log"
    using get_todos_loop_pages[OF pages details', of "[]" log]
    by (simp add: get_todos_def pid)
  show ?thesis
  proof (cases "failed = ?next")
    case True
    then have "\<forall>log. remote log ?next = Response r" using answer by simp
    then have "fetch_json remote ?log ?next = (Inl (HTTPError (status_code r)), ?log @ [?next])"
      using code by (simp add: fetch_json_http_error)
    then have "get_todos_loop remote c ?u (1 + int (length pages)) ([] @ map detail (concat pages)) ?log
        = Some (Inl (HTTPError (status_code r)), ?log @ [?next])"
      by (subst get_todos_loop.simps) simp
    with start True show ?thesis by simp
  next
    case False
    with failure obtain bad rest where
      page: "\<forall>log. remote log ?next = ok (JArr (before @ bad # rest))"
      and bad: "getitem bad ''url'' = Inr (loc bad)" "failed = detail_request c (loc bad)"
      by blast
    have good: "\<forall>s\<in>set before. getitem s ''url'' = Inr (loc s)
             \<and> (\<forall>log. remote log (detail_request c (loc s)) = ok (detail s))"
      using details by simp
    have r: "\<forall>log. remote log (detail_request c (loc bad)) = Response r"
      using answer bad(2) by simp
    have "get_todos_loop remote c ?u (1 + int (length pages)) ([] @ map detail (concat pages)) ?log
        = Some (Inl (HTTPError (status_code r)),
                (?log @ [?next]) @ map (\<lambda>s. detail_request c (loc s)) before
                   @ [detail_request c (loc bad)])"
      by (subst get_todos_loop.simps)
         (simp add: fetch_json_ok page
            get_todos_details_http_error[OF good bad(1) r code])
    with start False bad(2) show ?thesis by simp
  qed
qed

theorem get_todos_http_error_aborts_witness:
  "get_todos model_library failing_source scenario_client acme_project [] =
     Some (Inl (HTTPError 500),
           [page_request scenario_client ''https://x/api/v1/projects/1/todos.json'' 1,
            detail_request scenario_client (JStr ''https://x/todos/a''),
            detail_request scenario_client (JStr ''https://x/todos/b''),
            page_request scenario_client ''https://x/api/v1/projects/1/todos.json'' 2,
            detail_request scenario_client (JStr ''https://x/todos/c''),
            detail_request scenario_client (JStr ''https://x/todos/d'')])"
proof -
  let ?pages = "[[summary ''a'', summary ''b'']]"
  let ?before = "[summary ''c'']"
  let ?failed = "detail_request scenario_client (locator (summary ''d''))"
  let ?r = "\<lparr>status_code = 500, body = None\<rparr>"
  have u: "todos_url model_library scenario_client (JInt 1) = ''https://x/api/v1/projects/1/todos.json''"
    by code_simp
  have pid: "getitem acme_project ''id'' = Inr (JInt 1)"
    by (simp add: acme_project_def)
  have pages: "\<forall>i<length ?pages. ?pages ! i \<noteq> []
             \<and> (\<forall>log. failing_source log (page_request scenario_client (todos_url model_library scenario_client (JInt 1)) (1 + int i))
                    = ok (JArr (?pages ! i)))"
    by (simp add: failing_source_def page_request_def)
  have details: "\<forall>s\<in>set (concat ?pages) \<union> set ?before. getitem s ''url'' = Inr (locator s)
             \<and> (\<forall>log. failing_source log (detail_request scenario_client (locator s)) = ok (detail_of s))"
    by (simp add: failing_source_def detail_request_def locator_def summary_def)
  have failure: "?failed = page_request scenario_client (todos_url model_library scenario_client (JInt 1)) (1 + int (length ?pages)) \<and> ?before = []
         \<or> (\<exists>bad rest.
               (\<forall>log. failing_source log (page_request scenario_client (todos_url model_library scenario_client (JInt 1)) (1 + int (length ?pages)))
                    = ok (JArr (?before @ bad # rest)))
               \<and> getitem bad ''url'' = Inr (locator bad) \<and> ?failed = detail_request scenario_client (locator bad))"
    by (rule disjI2, rule exI[of _ "summary ''d''"], rule exI[of _ "[]"])
       (simp add: failing_source_def page_request_def locator_def summary_def)
  have answer: "\<forall>log. failing_source log ?failed = Response ?r"
    by (simp add: failing_source_def detail_request_def locator_def summary_def status_def)
  have code: "400 \<le> status_code ?r" "status_code ?r < 600"
    by simp_all
  from get_todos_http_error_aborts[OF pid pages details failure answer code, of "[]"]
  show ?thesis
    by (simp add: u locator_def summary_def page_request_def detail_request_def)
qed

subsection \<open>Building documents\<close>

text \<open>
  What it takes for a document to be built: every lookup succeeds, the content converts,
  the timestamp parses; the document then holds exactly those values.
\<close>

lemma comment_document_Inr:
  "comment_document lib self project todo comment = Inr doc \<longleftrightarrow>
     (\<exists>cid creator name raw plain avatar project_name app_url u ts.
        getitem comment ''id'' = Inr cid
      \<and> getitem comment ''creator'' = Inr creator
      \<and> getitem creator ''name'' = Inr name
      \<and> getitem comment ''content'' = Inr raw
      \<and> (if truthy raw then \<exists>s. html_to_text lib raw = Inr s \<and> plain = Some s else plain = None)
      \<and> getitem creator ''avatar_url'' = Inr avatar
      \<and> getitem project ''name'' = Inr project_name
      \<and> getitem todo ''app_url'' = Inr app_url
      \<and> getitem comment ''updated_at'' = Inr u
      \<and> strptime lib u timestamp_format = Inr ts
      \<and> doc = BasicDocument cid (self_data_source_id self) COMMENT name plain name avatar
                 project_name (JStr (py_str lib app_url @ ''#comment_'' @ py_str lib cid)) ts [])"
  by (auto simp: comment_document_def ebind_eq_Inr ebind_Inr split: if_splits)

lemma comment_documents_Inr:
  "comment_documents lib self project todo comments acc = Inr docs \<longleftrightarrow>
     (\<exists>new. docs = acc @ new
        \<and> list_all2 (\<lambda>comment doc. comment_document lib self project todo comment = Inr doc)
             comments new)"
proof (induction comments arbitrary: acc)
  case Nil
  then show ?case by auto
next
  case (Cons comment comments)
  show ?case
  proof (cases "comment_document lib self project todo comment")
    case (Inl e)
    then show ?thesis by (auto simp: list_all2_Cons1)
  next
    case (Inr d)
    then show ?thesis
      by (auto simp: Cons.IH list_all2_Cons1)
  qed
qed

lemma todo_document_Inr:
  "todo_document lib self project todo = Inr doc \<longleftrightarrow>
     (\<exists>listed comments docs tid creator name raw plain avatar project_name app_url u ts.
        getitem todo ''comments'' = Inr listed
      \<and> iterate listed = Inr comments
      \<and> list_all2 (\<lambda>comment d. comment_document lib self project todo comment = Inr d)
           comments docs
      \<and> getitem todo ''id'' = Inr tid
      \<and> getitem todo ''creator'' = Inr creator
      \<and> getitem creator ''name'' = Inr name
      \<and> getitem todo ''content'' = Inr raw
      \<and> html_to_text lib raw = Inr plain
      \<and> getitem creator ''avatar_url'' = Inr avatar
      \<and> getitem project ''name'' = Inr project_name
      \<and> getitem todo ''app_url'' = Inr app_url
      \<and> getitem todo ''updated_at'' = Inr u
      \<and> strptime lib u timestamp_format = Inr ts
      \<and> doc = BasicDocument tid (self_data_source_id self) DOCUMENT name (Some plain) name avatar
                 project_name app_url ts docs)"
  by (auto simp: todo_document_def ebind_eq_Inr comment_documents_Inr)

lemma feed_todos_all_built:
  "list_all2 (\<lambda>todo doc. todo_document lib self project todo = Inr doc) todos docs
     \<Longrightarrow> feed_todos lib self project (todos @ rest) queue
           = feed_todos lib self project rest (queue @ docs)"
  by (induction todos docs arbitrary: queue rule: list_all2_induct)
     (simp_all add: put_single_def)


subsection \<open>A record that cannot be built\<close>

text \<open>
  C1, as stated, fails. The claim says that a to-do whose document cannot be built is
  skipped and that the to-dos after it are still enqueued. The loop has no handler: with
  a first to-do whose \<^verbatim>\<open>updated_at\<close> does not parse and a second one that builds on its
  own, the unit ends with \<^verbatim>\<open>ValueError\<close> and an empty queue.
\<close>

theorem sibling_not_enqueued_counterexample:
  "\<not> isl (todo_document model_library scenario_self acme_project
             (task_item 11 (JStr ''b'') good_stamp []))
   \<and> result_and_queue
        (feed_project_issues model_library
           (items_source [task_item 10 (JStr ''a'') bad_stamp [],
                          task_item 11 (JStr ''b'') good_stamp []])
           scenario_self acme_project empty_state)
     = Some (Inl ValueError, [])"
  by code_simp

text \<open>
  C1, amended. A to-do whose document cannot be built ends the project's unit with that
  exception: the to-dos fetched before it have been built and enqueued, in order; the
  failing to-do and every to-do after it are not enqueued.
\<close>

theorem feed_project_issues_stops_at_failure:
  assumes name: "getitem project ''name'' = Inr project_name"
      and todos: "get_todos lib remote (self_client self) project (requests_log st)
                    = Some (Inr (before @ bad # rest), log)"
      and built: "list_all2 (\<lambda>todo doc. todo_document lib self project todo = Inr doc) before docs"
      and bad: "todo_document lib self project bad = Inl e"
  shows "feed_project_issues lib remote self project st
           = Some (Inl e, st\<lparr>requests_log := log, index_queue := index_queue st @ docs\<rparr>)"
proof -
  have "getitem project ''id'' \<noteq> Inl e'" for e'
    using todos by (auto simp: get_todos_def)
  then obtain pid where pid: "getitem project ''id'' = Inr pid"
    by (cases "getitem project ''id''") auto
  have "feed_todos lib self project (before @ bad # rest) (index_queue st)
          = (Inl e, index_queue st @ docs)"
    by (simp add: feed_todos_all_built[OF built] bad)
  then show ?thesis
    by (simp add: feed_project_issues_def name pid ebind_Inr todos)
qed

theorem feed_project_issues_stops_at_failure_witness:
  "feed_project_issues model_library
     (items_source [task_item 10 (JStr ''a'') good_stamp [], task_item 11 (JStr ''b'') bad_stamp [],
                    task_item 12 (JStr ''c'') good_stamp []])
     scenario_self acme_project empty_state
   = Some (Inl ValueError,
       empty_state
         \<lparr>requests_log :=
            [page_request scenario_client ''https://x/api/v1/projects/1/todos.json'' 1,
             detail_request scenario_client (JStr ''https://x/todos/10''),
             detail_request scenario_client (JStr ''https://x/todos/11''),
             detail_request scenario_client (JStr ''https://x/todos/12''),
             page_request scenario_client ''https://x/api/v1/projects/1/todos.json'' 2],
          index_queue := index_queue empty_state @
            [BasicDocument (JInt 10) 7 DOCUMENT (JStr ''Bo'') (Some ''a'') (JStr ''Bo'')
               (JStr ''https://x/bo.png'') (JStr ''Acme'') (JStr ''https://x/10'')
               \<lparr>year = 2023, month = 1, day = 2, hour = 3, minute = 4, second = 5,
                  microsecond = 0, utcoffset_minutes = 0\<rparr> []]\<rparr>)"
proof -
  let ?items = "[task_item 10 (JStr ''a'') good_stamp [], task_item 11 (JStr ''b'') bad_stamp [],
                 task_item 12 (JStr ''c'') good_stamp []]"
  have name: "getitem acme_project ''name'' = Inr (JStr ''Acme'')"
    by (simp add: acme_project_def)
  have todos: "get_todos model_library (items_source ?items) (self_client scenario_self)
                 acme_project (requests_log empty_state)
      = Some (Inr ([task_item 10 (JStr ''a'') good_stamp []] @ task_item 11 (JStr ''b'') bad_stamp []
                     # [task_item 12 (JStr ''c'') good_stamp []]),
              [page_request scenario_client ''https://x/api/v1/projects/1/todos.json'' 1,
               detail_request scenario_client (JStr ''https://x/todos/10''),
               detail_request scenario_client (JStr ''https://x/todos/11''),
               detail_request scenario_client (JStr ''https://x/todos/12''),
               page_request scenario_client ''https://x/api/v1/projects/1/todos.json'' 2])"
    by code_simp
  have built: "list_all2 (\<lambda>todo doc. todo_document model_library scenario_self acme_project todo = Inr doc)
                 [task_item 10 (JStr ''a'') good_stamp []]
                 [BasicDocument (JInt 10) 7 DOCUMENT (JStr ''Bo'') (Some ''a'') (JStr ''Bo'')
                    (JStr ''https://x/bo.png'') (JStr ''Acme'') (JStr ''https://x/10'')
                    \<lparr>year = 2023, month = 1, day = 2, hour = 3, minute = 4, second = 5,
                       microsecond = 0, utcoffset_minutes = 0\<rparr> []]"
    by code_simp
  have bad: "todo_document model_library scenario_self acme_project
               (task_item 11 (JStr ''b'') bad_stamp []) = Inl ValueError"
    by code_simp
  from feed_project_issues_stops_at_failure[OF name todos built bad]
  show ?thesis by simp
qed

lemma example_document_built:
  "todo_document model_library scenario_self acme_project example_item = Inr example_document"
  by code_simp

subsection \<open>Content\<close>

text \<open>
  C3, as stated, fails. The claim says that the content of a parent document is absent
  when the raw content of the to-do is empty. Line 133 converts the raw content of a to-do
  without looking at it: a to-do with the empty string as content gives a DOCUMENT
  document whose content is the converted text, here the empty string, and not
  \<^verbatim>\<open>None\<close>.
\<close>

theorem parent_content_not_absent_counterexample:
  "map_sum id content
     (todo_document model_library scenario_self acme_project (task_item 10 (JStr '''') good_stamp []))
   = Inr (Some '''')"
  by code_simp

text \<open>
  C3, amended. In every built document, the content of the parent is the conversion of the
  raw content of the to-do, whatever that raw content is, and is never absent; the content
  of each child is the conversion of the raw content of its comment when that raw content
  is truthy, and is absent when it is empty or \<^verbatim>\<open>None\<close>.
\<close>

theorem content_of_built_documents:
  assumes "todo_document lib self project todo = Inr doc"
  shows "(\<exists>raw plain. getitem todo ''content'' = Inr raw \<and> html_to_text lib raw = Inr plain
            \<and> content doc = Some plain)
       \<and> (\<exists>listed comments. getitem todo ''comments'' = Inr listed \<and> iterate listed = Inr comments
            \<and> list_all2
                 (\<lambda>comment child. \<exists>raw. getitem comment ''content'' = Inr raw
                    \<and> (if truthy raw
                        then \<exists>plain. html_to_text lib raw = Inr plain \<and> content child = Some plain
                        else content child = None))
                 comments (children doc))"
proof -
  from assms obtain listed comments docs raw plain where
    c: "getitem todo ''comments'' = Inr listed" "iterate listed = Inr comments"
    and kids: "list_all2 (\<lambda>comment d. comment_document lib self project todo comment = Inr d)
                 comments docs"
    and raw: "getitem todo ''content'' = Inr raw" "html_to_text lib raw = Inr plain"
    and doc: "content doc = Some plain" "children doc = docs"
    unfolding todo_document_Inr by auto
  have "list_all2
          (\<lambda>comment child. \<exists>raw. getitem comment ''content'' = Inr raw
             \<and> (if truthy raw
                 then \<exists>plain. html_to_text lib raw = Inr plain \<and> content child = Some plain
                 else content child = None))
          comments docs"
    using kids
    by (rule list_all2_mono) (auto simp: comment_document_Inr split: if_splits)
  with c raw doc show ?thesis by auto
qed

theorem content_of_built_documents_witness:
  "todo_document model_library scenario_self acme_project example_item = Inr example_document
   \<and> (\<exists>raw plain. getitem example_item ''content'' = Inr raw
          \<and> html_to_text model_library raw = Inr plain \<and> content example_document = Some plain)
   \<and> (\<exists>listed comments. getitem example_item ''comments'' = Inr listed
          \<and> iterate listed = Inr comments
          \<and> list_all2
               (\<lambda>comment child. \<exists>raw. getitem comment ''content'' = Inr raw
                  \<and> (if truthy raw
                      then \<exists>plain. html_to_text model_library raw = Inr plain
                             \<and> content child = Some plain
                      else content child = None))
               comments (children example_document))"
  using content_of_built_documents[OF example_document_built] example_document_built
  by blast

subsection \<open>Timestamps\<close>



subsection \<open>One document for every to-do\<close>




subsection \<open>The end-to-end scenario\<close>

text \<open>
  C9, as stated, fails. The two \<^verbatim>\<open>creator\<close> records of the scenario hold a name and
  nothing else. Lines 119 and 135 read \<^verbatim>\<open>creator["avatar_url"]\<close>, so on the scenario
  as it is written the unit ends with \<^verbatim>\<open>KeyError\<close> and nothing is enqueued.
\<close>

theorem scenario_as_written_counterexample:
  "result_and_queue
     (feed_project_issues model_library (items_source [scenario_task_item [] []])
        scenario_self acme_project empty_state)
   = Some (Inl (KeyError ''avatar_url''), [])"
  by code_simp

text \<open>
  C9, amended. With an \<^verbatim>\<open>avatar_url\<close> (of any value) added to both \<^verbatim>\<open>creator\<close>
  records, and with a library that converts the two contents to \<^verbatim>\<open>Hi\<close> and
  \<^verbatim>\<open>ok\<close> and parses the two timestamps, the unit makes exactly one enqueue call: a
  DOCUMENT document with title \<^verbatim>\<open>Bo\<close>, content \<^verbatim>\<open>Hi\<close> and the \<^verbatim>\<open>app_url\<close>
  as its url, whose single child is a COMMENT document with title \<^verbatim>\<open>Al\<close>, content
  \<^verbatim>\<open>ok\<close> and the url \<^verbatim>\<open>https://x/10#comment_99\<close>.
\<close>

theorem end_to_end_scenario:
  assumes hi: "html_to_text lib (JStr ''<p>Hi</p>'') = Inr ''Hi''"
      and ok: "html_to_text lib (JStr ''<b>ok</b>'') = Inr ''ok''"
      and t1: "strptime lib (JStr ''2023-01-02T03:04:05.000000+00:00'') timestamp_format = Inr t1"
      and t2: "strptime lib (JStr ''2023-01-02T03:05:00.000000+00:00'') timestamp_format = Inr t2"
      and todos: "get_todos lib remote (self_client self) acme_project (requests_log st)
           = Some (Inr [scenario_task_item [(''avatar_url'', bo)] [(''avatar_url'', al)]], log)"
  shows "feed_project_issues lib remote self acme_project st =
           Some (Inr (),
             st\<lparr>requests_log := log,
                index_queue := index_queue st @
                  [BasicDocument (JInt 10) (self_data_source_id self) DOCUMENT (JStr ''Bo'')
                     (Some ''Hi'') (JStr ''Bo'') bo (JStr ''Acme'') (JStr ''https://x/10'') t1
                     [BasicDocument (JInt 99) (self_data_source_id self) COMMENT (JStr ''Al'')
                        (Some ''ok'') (JStr ''Al'') al (JStr ''Acme'')
                        (JStr ''https://x/10#comment_99'') t2 []]]\<rparr>)"
proof -
  let ?item = "scenario_task_item [(''avatar_url'', bo)] [(''avatar_url'', al)]"
  let ?comment = "JObj [(''id'', JInt 99),
                        (''creator'', creator_record ''Al'' [(''avatar_url'', al)]),
                        (''content'', JStr ''<b>ok</b>''),
                        (''updated_at'', JStr ''2023-01-02T03:05:00.000000+00:00'')]"
  let ?child = "BasicDocument (JInt 99) (self_data_source_id self) COMMENT (JStr ''Al'')
                  (Some ''ok'') (JStr ''Al'') al (JStr ''Acme'')
                  (JStr ''https://x/10#comment_99'') t2 []"
  have n99: "str_of_int 99 = ''99''"
    by code_simp
  have child: "comment_document lib self acme_project ?item ?comment = Inr ?child"
    by (simp add: comment_document_def scenario_task_item_def creator_record_def
          acme_project_def ebind_Inr ok t2 n99)
  have doc: "todo_document lib self acme_project ?item =
      Inr (BasicDocument (JInt 10) (self_data_source_id self) DOCUMENT (JStr ''Bo'')
             (Some ''Hi'') (JStr ''Bo'') bo (JStr ''Acme'') (JStr ''https://x/10'') t1 [?child])"
    using child
    by (simp add: todo_document_def scenario_task_item_def creator_record_def
          acme_project_def ebind_Inr hi t1)
  have name: "getitem acme_project ''name'' = Inr (JStr ''Acme'')"
    and pid: "getitem acme_project ''id'' = Inr (JInt 1)"
    by (simp_all add: acme_project_def)
  show ?thesis
    by (simp add: feed_project_issues_def name pid ebind_Inr todos doc put_single_def)
qed

theorem end_to_end_scenario_witness:
  "feed_project_issues model_library
     (items_source [scenario_task_item [(''avatar_url'', JNull)] [(''avatar_url'', JNull)]])
     scenario_self acme_project empty_state =
   Some (Inr (),
     empty_state
       \<lparr>requests_log :=
          [page_request scenario_client ''https://x/api/v1/projects/1/todos.json'' 1,
           detail_request scenario_client (JStr ''https://x/todos/10''),
           page_request scenario_client ''https://x/api/v1/projects/1/todos.json'' 2],
        index_queue := index_queue empty_state @
          [BasicDocument (JInt 10) (self_data_source_id scenario_self) DOCUMENT (JStr ''Bo'')
             (Some ''Hi'') (JStr ''Bo'') JNull (JStr ''Acme'') (JStr ''https://x/10'')
             \<lparr>year = 2023, month = 1, day = 2, hour = 3, minute = 4, second = 5,
                microsecond = 0, utcoffset_minutes = 0\<rparr>
             [BasicDocument (JInt 99) (self_data_source_id scenario_self) COMMENT (JStr ''Al'')
                (Some ''ok'') (JStr ''Al'') JNull (JStr ''Acme'')
                (JStr ''https://x/10#comment_99'')
                \<lparr>year = 2023, month = 1, day = 2, hour = 3, minute = 5, second = 0,
                   microsecond = 0, utcoffset_minutes = 0\<rparr> []]]\<rparr>)"
proof -
  have hi: "html_to_text model_library (JStr ''<p>Hi</p>'') = Inr ''Hi''"
    by code_simp
  have ok: "html_to_text model_library (JStr ''<b>ok</b>'') = Inr ''ok''"
    by code_simp
  have t1: "strptime model_library (JStr ''2023-01-02T03:04:05.000000+00:00'') timestamp_format
      = Inr \<lparr>year = 2023, month = 1, day = 2, hour = 3, minute = 4, second = 5,
              microsecond = 0, utcoffset_minutes = 0\<rparr>"
    by code_simp
  have t2: "strptime model_library (JStr ''2023-01-02T03:05:00.000000+00:00'') timestamp_format
      = Inr \<lparr>year = 2023, month = 1, day = 2, hour = 3, minute = 5, second = 0,
              microsecond = 0, utcoffset_minutes = 0\<rparr>"
    by code_simp
  have todos: "get_todos model_library
       (items_source [scenario_task_item [(''avatar_url'', JNull)] [(''avatar_url'', JNull)]])
       (self_client scenario_self) acme_project (requests_log empty_state)
     = Some (Inr [scenario_task_item [(''avatar_url'', JNull)] [(''avatar_url'', JNull)]],
          [page_request scenario_client ''https://x/api/v1/projects/1/todos.json'' 1,
           detail_request scenario_client (JStr ''https://x/todos/10''),
           page_request scenario_client ''https://x/api/v1/projects/1/todos.json'' 2])"
    by code_simp
  show ?thesis
    by (rule end_to_end_scenario[OF hi ok t1 t2 todos])
qed

subsection \<open>Validating a configuration\<close>

lemma client_of_config_Inr:
  "getitem config ''url'' = Inr u \<Longrightarrow> getitem config ''username'' = Inr username
     \<Longrightarrow> getitem config ''password'' = Inr password
     \<Longrightarrow> client_of_config lib config = Inr (BasecampClient lib u username password)"
  by (simp add: client_of_config_def ebind_Inr)

text \<open>
  C4, as stated, fails. The claim counts a transport failure among the errors that are
  translated. \<^verbatim>\<open>validate_config\<close> catches \<^verbatim>\<open>requests.HTTPError\<close> only, which
  \<^verbatim>\<open>raise_for_status\<close> raises for a response with an error status; when no response
  arrives, the exception of the session passes through untranslated.
\<close>

theorem transport_failure_counterexample:
  "fst (validate_config model_library unreachable scenario_config []) = Inl ConnectionError"
  by code_simp

text \<open>
  C4, amended. For a configuration that holds the three keys, \<open>validate_config\<close> sends
  exactly one request, the listing of the projects. A response with an error status (400
  to 599) is translated to \<^verbatim>\<open>InvalidDataSourceConfig\<close>; a transport failure and a body
  that is not JSON surface as they are; otherwise the call returns nothing and keeps
  nothing: the projects received are dropped.
\<close>

theorem validate_config_probe:
  assumes "getitem config ''url'' = Inr u"
      and "getitem config ''username'' = Inr username"
      and "getitem config ''password'' = Inr password"
  shows "validate_config lib remote config log =
           ((case remote log (projects_request (BasecampClient lib u username password)) of
               ConnectionFailed \<Rightarrow> Inl ConnectionError
             | Response r \<Rightarrow>
                 if 400 \<le> status_code r \<and> status_code r < 600 then Inl InvalidDataSourceConfig
                 else if body r = None then Inl JSONDecodeError
                 else Inr ()),
            log @ [projects_request (BasecampClient lib u username password)])"
  by (simp add: validate_config_def client_of_config_Inr[OF assms] get_projects_def
        fetch_json_cases split: outcome.splits option.splits)

theorem validate_config_probe_witness:
  "validate_config model_library unauthorized scenario_config [] =
     (Inl InvalidDataSourceConfig,
      [projects_request (BasecampClient model_library (JStr ''https://x'') (JStr ''user'') (JStr ''secret''))])"
proof -
  have "getitem scenario_config ''url'' = Inr (JStr ''https://x'')"
    and "getitem scenario_config ''username'' = Inr (JStr ''user'')"
    and "getitem scenario_config ''password'' = Inr (JStr ''secret'')"
    by (simp_all add: scenario_config_def)
  from validate_config_probe[OF this, of model_library unauthorized "[]"]
  show ?thesis
    by (simp add: unauthorized_def status_def)
qed

text \<open>
  C10. A configuration dictionary that lacks one of the keys \<^verbatim>\<open>url\<close>,
  \<^verbatim>\<open>username\<close>, \<^verbatim>\<open>password\<close> makes \<open>validate_config\<close> end with the
  \<^verbatim>\<open>KeyError\<close> of a missing key, not with \<^verbatim>\<open>InvalidDataSourceConfig\<close>, and before
  any request is sent.
\<close>

theorem validate_config_missing_key:
  assumes "k \<in> {''url'', ''username'', ''password''}"
      and "map_of kvs k = None"
  shows "\<exists>missing. missing \<in> {''url'', ''username'', ''password''} \<and> map_of kvs missing = None
           \<and> validate_config lib remote (JObj kvs) log = (Inl (KeyError missing), log)"
proof (cases "map_of kvs ''url''")
  case None
  then show ?thesis
    by (intro exI[of _ "''url''"]) (simp add: validate_config_def client_of_config_def ebind_Inl)
next
  case url: (Some u)
  show ?thesis
  proof (cases "map_of kvs ''username''")
    case None
    then show ?thesis using url
      by (intro exI[of _ "''username''"])
         (simp add: validate_config_def client_of_config_def ebind_Inl ebind_Inr)
  next
    case username: (Some n)
    with url assms have "map_of kvs ''password'' = None" by auto
    then show ?thesis using url username
      by (intro exI[of _ "''password''"])
         (simp add: validate_config_def client_of_config_def ebind_Inl ebind_Inr)
  qed
qed

theorem validate_config_missing_key_witness:
  "validate_config model_library unauthorized
     (JObj [(''url'', JStr ''https://x''), (''username'', JStr ''user'')]) []
   = (Inl (KeyError ''password''), [])"
proof -
  let ?kvs = "[(''url'', JStr ''https://x''), (''username'', JStr ''user'')]"
  have "''password'' \<in> {''url'', ''username'', ''password''}" by simp
  moreover have "map_of ?kvs ''password'' = None" by simp
  ultimately obtain missing where
    "missing \<in> {''url'', ''username'', ''password''}" "map_of ?kvs missing = None"
    "validate_config model_library unauthorized (JObj ?kvs) [] = (Inl (KeyError missing), [])"
    using validate_config_missing_key[of "''password''" ?kvs model_library unauthorized "[]"]
    by blast
  then show ?thesis by (auto split: if_splits)
qed

subsection \<open>Enumerating the projects\<close>

text \<open>
  C7. When \<open>get_projects\<close> raises, \<open>feed_new_documents\<close> ends with that exception after
  the one request: no unit of work is scheduled and nothing is put on the index queue.
\<close>

theorem feed_new_documents_enumeration_failure:
  assumes "fst (get_projects remote (self_client self) (requests_log st)) = Inl e"
  shows "feed_new_documents remote self st =
           (Inl e, st\<lparr>requests_log := requests_log st @ [projects_request (self_client self)]\<rparr>)
         \<and> index_queue (snd (feed_new_documents remote self st)) = index_queue st
         \<and> task_queue (snd (feed_new_documents remote self st)) = task_queue st"
proof -
  have "get_projects remote (self_client self) (requests_log st) =
      (Inl e, requests_log st @ [projects_request (self_client self)])"
    using assms fetch_json_log[of remote "requests_log st" "projects_request (self_client self)"]
    by (cases "fetch_json remote (requests_log st) (projects_request (self_client self))")
       (simp add: get_projects_def)
  then show ?thesis
    by (simp add: feed_new_documents_def)
qed

theorem feed_new_documents_enumeration_failure_witness:
  "feed_new_documents unauthorized scenario_self empty_state =
     (Inl (HTTPError 401),
      empty_state\<lparr>requests_log := requests_log empty_state @ [projects_request (self_client scenario_self)]\<rparr>)
   \<and> index_queue (snd (feed_new_documents unauthorized scenario_self empty_state))
       = index_queue empty_state
   \<and> task_queue (snd (feed_new_documents unauthorized scenario_self empty_state))
       = task_queue empty_state"
proof -
  have "fst (get_projects unauthorized (self_client scenario_self) (requests_log empty_state))
      = Inl (HTTPError 401)"
    by (simp add: get_projects_def fetch_json_cases unauthorized_def status_def)
  then show ?thesis
    by (rule feed_new_documents_enumeration_failure)
qed

end
